theory Spec2Isabelle
  imports Complex_Main "HOL-Library.Log_Nat"
begin

section \<open>JavaScript numbers\<close>

text \<open>
  A JavaScript number is an IEEE 754 double. The finite doubles are rationals, so a number is
  modelled by the rational it denotes, and every arithmetic operation rounds its exact
  result to the nearest double, ties to the even significand (53 bits). All values of
  this program lie far inside the normal range, so overflow, subnormals, NaN and the
  sign of zero are left out.
\<close>

type_synonym number = rat

definition pow2 :: "int \<Rightarrow> rat" where
  "pow2 e = (if 0 \<le> e then 2 ^ nat e else 1 / 2 ^ nat (- e))"

definition ilog2 :: "rat \<Rightarrow> int" where
  \<comment> \<open>the binary exponent of a positive rational: \<open>2 ^ e \<le> x < 2 ^ (e + 1)\<close>\<close>
  "ilog2 x = (case quotient_of x of (p, q) \<Rightarrow>
     (let e = bitlen p - bitlen q in if pow2 e \<le> x then e else e - 1))"

definition round_half_even :: "rat \<Rightarrow> int" where
  "round_half_even m = (let f = \<lfloor>m\<rfloor>; r = m - of_int f in
     if r < 1 / 2 then f else if 1 / 2 < r then f + 1 else if even f then f else f + 1)"

definition rd :: "rat \<Rightarrow> number" where
  \<comment> \<open>the double nearest to an exact value\<close>
  "rd x = (if x = 0 then 0 else
     (let u = pow2 (ilog2 \<bar>x\<bar> - 52) in of_int (round_half_even (x / u)) * u))"

definition fadd :: "number \<Rightarrow> number \<Rightarrow> number" where "fadd a b = rd (a + b)"
definition fsub :: "number \<Rightarrow> number \<Rightarrow> number" where "fsub a b = rd (a - b)"
definition fmul :: "number \<Rightarrow> number \<Rightarrow> number" where "fmul a b = rd (a * b)"
definition fdiv :: "number \<Rightarrow> number \<Rightarrow> number" where "fdiv a b = rd (a / b)"

definition Math_PI :: number where
  \<comment> \<open>\<open>Math.PI\<close>, the double nearest to \<open>\<pi>\<close>: 3.141592653589793\<close>
  "Math_PI = 884279719003555 / 2 ^ 48"

section \<open>The element tree\<close>

text \<open>
  JSX builds element descriptions; it does not call the component it names. React calls
  the component later, when it renders the element. So an element of a function
  component (\<open>SimpleHypercube\<close>, \<open>TextLabel\<close>, drei's \<open>Text\<close>) is a node of its own,
  holding the props, and rendering is a separate function (\<open>mount\<close> below).
  Keys and refs are React bookkeeping and are not props; they are left out.
\<close>

datatype handler = setHovered bool | setClicked bool

record group_props =
  g_position :: "number list option"
  g_rotation :: "number list option"
  g_scale :: "number list option"
  onPointerOver :: "handler option"
  onPointerOut :: "handler option"
  onClick :: "handler option"

record mesh_props =
  m_position :: "number list option"
  m_rotation :: "number list option"

datatype geometry = boxGeometry "number list" | sphereGeometry "number list"

record standard_material =
  color :: string
  wireframe :: bool
  emissive :: string
  emissiveIntensity :: number
  transparent :: bool
  opacity :: number

datatype material = meshStandardMaterial standard_material | meshBasicMaterial string

record hypercube_props =
  h_hovered :: bool
  h_clicked :: bool
  h_primaryColor :: string
  h_secondaryColor :: string
  h_accentColor :: string
  h_highContrast :: bool

record label_props =
  l_text :: string
  l_position :: "number list"
  l_color :: "string option"
  l_outlineColor :: "string option"
  l_fontSize :: "number option"

record text_props =
  t_position :: "number list"
  t_fontSize :: number
  t_color :: string
  anchorX :: string
  anchorY :: string
  outlineWidth :: number
  t_outlineColor :: string
  renderOrder :: number
  depthTest :: bool

datatype element =
    Group group_props "element list"
  | Mesh mesh_props geometry material
  | SimpleHypercube_el hypercube_props
  | TextLabel_el label_props
  | Text_el text_props string

definition no_props :: group_props where
  "no_props = \<lparr>g_position = None, g_rotation = None, g_scale = None,
     onPointerOver = None, onPointerOut = None, onClick = None\<rparr>"

section \<open>Exceptions\<close>

datatype exn = Error string

definition try_catch :: "exn + 'a \<Rightarrow> (exn \<Rightarrow> exn + 'a) \<Rightarrow> exn + 'a" where
  "try_catch body handle = (case body of Inl e \<Rightarrow> handle e | Inr v \<Rightarrow> Inr v)"

section \<open>TextLabel\<close>

definition jsx_Text :: "text_props \<Rightarrow> string \<Rightarrow> exn + element" where
  \<comment> \<open>\<open><Text ...>{text}</Text>\<close>: creating the element stores the props and nothing else\<close>
  "jsx_Text tp s = Inr (Text_el tp s)"

definition TextLabel :: "label_props \<Rightarrow> exn + element" where
  "TextLabel lp =
     (let text = l_text lp;
          position = l_position lp;
          color = (case l_color lp of None \<Rightarrow> ''#FFFFFF'' | Some c \<Rightarrow> c);
          outlineColor = (case l_outlineColor lp of None \<Rightarrow> ''#000000'' | Some c \<Rightarrow> c);
          fontSize = (case l_fontSize lp of None \<Rightarrow> rd (2 / 10) | Some f \<Rightarrow> f)
      in try_catch
           (jsx_Text \<lparr>t_position = position, t_fontSize = fontSize, t_color = color,
                      anchorX = ''center'', anchorY = ''middle'', outlineWidth = rd (1 / 100),
                      t_outlineColor = outlineColor, renderOrder = 1, depthTest = False\<rparr> text)
           (\<lambda>error. \<comment> \<open>\<open>console.error\<close> logs; then the fallback is returned\<close>
              Inr (Mesh \<lparr>m_position = Some position, m_rotation = None\<rparr>
                     (sphereGeometry [rd (1 / 10), 8, 8]) (meshBasicMaterial color))))"

section \<open>SimpleHypercube\<close>

text \<open>
  The component also starts an animation loop that adds to the x and y rotation of the
  rendered three.js object of its root group on every frame. The loop writes to that
  object, not to the element tree, and is left out.
\<close>

definition GROWTH_STAGES :: "string list" where
  "GROWTH_STAGES = [''Boundary Set'', ''Authenticity Embraced'', ''Self-Advocacy'',
     ''Resilience Built'', ''Transformation Complete'']"

definition getLayerPosition :: "bool \<Rightarrow> nat \<Rightarrow> number list" where
  "getLayerPosition hovered index =
     (if \<not> hovered then [0, 0, 0] else [0, fmul (fsub (of_nat index) 2) 2, 0])"

definition textColor :: "bool \<Rightarrow> string" where
  "textColor highContrast = (if highContrast then ''#FFFFFF'' else ''#FFFFFF'')"

definition textOutlineColor :: "bool \<Rightarrow> string" where
  "textOutlineColor highContrast = (if highContrast then ''#000000'' else ''#000000'')"

definition layer_size :: "nat \<Rightarrow> number" where
  \<comment> \<open>\<open>2 - index * 0.2\<close>\<close>
  "layer_size index = fsub 2 (fmul (of_nat index) (rd (2 / 10)))"

definition layer_color :: "hypercube_props \<Rightarrow> nat \<Rightarrow> string" where
  \<comment> \<open>\<open>index % 3 === 0 ? primaryColor : index % 3 === 1 ? secondaryColor : accentColor\<close>\<close>
  "layer_color hp index =
     (if index mod 3 = 0 then h_primaryColor hp
      else if index mod 3 = 1 then h_secondaryColor hp else h_accentColor hp)"

definition layer :: "hypercube_props \<Rightarrow> nat \<times> string \<Rightarrow> element" where
  \<comment> \<open>the callback of \<open>GROWTH_STAGES.map\<close>, at (index, stage)\<close>
  "layer hp = (\<lambda>(index, stage).
     Group (no_props\<lparr>g_position := Some (getLayerPosition (h_hovered hp) index)\<rparr>)
       ([Mesh \<lparr>m_position = None, m_rotation = None\<rparr>
           (boxGeometry [layer_size index, layer_size index, layer_size index])
           (meshStandardMaterial
              \<lparr>color = layer_color hp index, wireframe = True, emissive = layer_color hp index,
               emissiveIntensity = rd (3 / 10), transparent = True, opacity = rd (7 / 10)\<rparr>)]
        @ (if h_hovered hp
           then [TextLabel_el
                   \<lparr>l_text = stage,
                    l_position = [0, fadd (fdiv (layer_size index) 2) (rd (5 / 10)), 0],
                    l_color = Some (textColor (h_highContrast hp)),
                    l_outlineColor = Some (textOutlineColor (h_highContrast hp)),
                    l_fontSize = None\<rparr>]
           else [])))"

definition fractal_size :: "nat \<Rightarrow> number" where
  \<comment> \<open>\<open>1 - level * 0.3\<close>\<close>
  "fractal_size level = fsub 1 (fmul (of_nat level) (rd (3 / 10)))"

definition fractal_cube :: "hypercube_props \<Rightarrow> nat \<Rightarrow> element" where
  "fractal_cube hp level =
     Mesh \<lparr>m_position = None,
           m_rotation = Some [fdiv (fmul (of_nat level) Math_PI) 4,
                              fdiv (fmul (of_nat level) Math_PI) 4, 0]\<rparr>
       (boxGeometry [fractal_size level, fractal_size level, fractal_size level])
       (meshStandardMaterial
          \<lparr>color = h_accentColor hp, wireframe = True, emissive = h_accentColor hp,
           emissiveIntensity = rd (3 / 10), transparent = True, opacity = rd (7 / 10)\<rparr>)"

definition fractal :: "hypercube_props \<Rightarrow> element" where
  "fractal hp =
     Group (no_props\<lparr>g_scale := Some [rd (5 / 10), rd (5 / 10), rd (5 / 10)]\<rparr>)
       (map (fractal_cube hp) [0, 1, 2]
        @ [TextLabel_el
             \<lparr>l_text = ''Fractal Self-Reclamation'',
              l_position = [0, rd (15 / 10), 0],
              l_color = Some (textColor (h_highContrast hp)),
              l_outlineColor = Some (textOutlineColor (h_highContrast hp)),
              l_fontSize = Some (rd (15 / 100))\<rparr>])"

definition SimpleHypercube :: "hypercube_props \<Rightarrow> element" where
  "SimpleHypercube hp =
     Group no_props
       (map (layer hp) (enumerate 0 GROWTH_STAGES)
        @ (if h_clicked hp then [fractal hp] else []))"

section \<open>Scene\<close>

record scene_props =
  highContrast :: bool
  soundEnabled :: bool

record scene_state =
  hovered :: bool
  clicked :: bool

definition primaryColor :: "bool \<Rightarrow> string" where
  "primaryColor hc = (if hc then ''#FFFFFF'' else ''#FF4D4D'')"

definition secondaryColor :: "bool \<Rightarrow> string" where
  "secondaryColor hc = (if hc then ''#FFFFFF'' else ''#4D4DFF'')"

definition accentColor :: "bool \<Rightarrow> string" where
  "accentColor hc = (if hc then ''#FFFFFF'' else ''#FFD700'')"

definition Scene :: "scene_props \<Rightarrow> scene_state \<Rightarrow> element" where
  "Scene p s =
     Group \<lparr>g_position = None,
            g_rotation = Some [0, 0, if clicked s then fdiv Math_PI 4 else 0],
            g_scale = None,
            onPointerOver = Some (setHovered True),
            onPointerOut = Some (setHovered False),
            onClick = Some (setClicked (\<not> clicked s))\<rparr>
       [SimpleHypercube_el
          \<lparr>h_hovered = hovered s, h_clicked = clicked s,
           h_primaryColor = primaryColor (highContrast p),
           h_secondaryColor = secondaryColor (highContrast p),
           h_accentColor = accentColor (highContrast p),
           h_highContrast = highContrast p\<rparr>]"

definition initial_state :: scene_state where
  \<comment> \<open>\<open>useState(false)\<close>, twice\<close>
  "initial_state = \<lparr>hovered = False, clicked = False\<rparr>"

subsection \<open>Pointer events\<close>

text \<open>
  An event runs the handler that the last render attached to the group; the handler is a
  closure over that render's state. React renders again before the next pointer event
  is delivered, so each event meets the handlers of the current state.
\<close>

datatype event = PointerOver | PointerOut | Click

fun handler_of :: "event \<Rightarrow> element \<Rightarrow> handler option" where
  "handler_of PointerOver (Group gp cs) = onPointerOver gp"
| "handler_of PointerOut (Group gp cs) = onPointerOut gp"
| "handler_of Click (Group gp cs) = onClick gp"
| "handler_of ev el = None"

fun run_handler :: "handler \<Rightarrow> scene_state \<Rightarrow> scene_state" where
  "run_handler (setHovered b) s = s\<lparr>hovered := b\<rparr>"
| "run_handler (setClicked b) s = s\<lparr>clicked := b\<rparr>"

definition dispatch :: "scene_props \<Rightarrow> event \<Rightarrow> scene_state \<Rightarrow> scene_state" where
  "dispatch p ev s =
     (case handler_of ev (Scene p s) of None \<Rightarrow> s | Some h \<Rightarrow> run_handler h s)"

subsection \<open>Rendering the elements of the tree\<close>

fun children :: "element \<Rightarrow> element list" where
  "children (Group gp cs) = cs"
| "children el = []"

fun rotation_of :: "element \<Rightarrow> number list option" where
  "rotation_of (Group gp cs) = g_rotation gp"
| "rotation_of (Mesh mp g m) = m_rotation mp"
| "rotation_of el = None"

fun position_of :: "element \<Rightarrow> number list option" where
  "position_of (Group gp cs) = g_position gp"
| "position_of (Mesh mp g m) = m_position mp"
| "position_of el = None"

fun geometry_of :: "element \<Rightarrow> geometry option" where
  "geometry_of (Mesh mp g m) = Some g"
| "geometry_of el = None"

fun material_of :: "element \<Rightarrow> material option" where
  "material_of (Mesh mp g m) = Some m"
| "material_of el = None"

fun unfold :: "element \<Rightarrow> element" where
  \<comment> \<open>the tree with every \<open>SimpleHypercube\<close> element replaced by what the component returns\<close>
  "unfold (Group gp cs) = Group gp (map unfold cs)"
| "unfold (SimpleHypercube_el hp) = SimpleHypercube hp"
| "unfold el = el"

fun labels :: "element \<Rightarrow> label_props list" where
  \<comment> \<open>the props of every \<open>TextLabel\<close> element of a tree\<close>
  "labels (Group gp cs) = concat (map labels cs)"
| "labels (TextLabel_el lp) = [lp]"
| "labels el = []"

section \<open>HypercubeVisualization\<close>

text \<open>
  The top-level component owns the two preferences and fills the canvas. The HTML around
  the canvas (two switches that set the preferences, two lines of hints) and the
  listeners that suppress the context menu do not reach the 3D scene and are left out.
\<close>

record app_state =
  a_highContrast :: bool
  a_soundEnabled :: bool

datatype canvas_child =
    color_background "string list"
  | ambientLight number
  | spotLight "number list" number number number
  | Scene_el scene_props
  | OrbitControls bool bool

definition HypercubeVisualization :: "app_state \<Rightarrow> canvas_child list" where
  "HypercubeVisualization a =
     [color_background [if a_highContrast a then ''#000000'' else ''#0F0F1A''],
      ambientLight (rd (5 / 10)),
      spotLight [10, 10, 10] (rd (15 / 100)) 1 1,
      Scene_el \<lparr>highContrast = a_highContrast a, soundEnabled = a_soundEnabled a\<rparr>,
      OrbitControls False True]"

fun colors :: "element \<Rightarrow> string list" where
  \<comment> \<open>the colour and emissive colour of every material of a tree\<close>
  "colors (Group gp cs) = concat (map colors cs)"
| "colors (Mesh mp g (meshStandardMaterial m)) = [color m, emissive m]"
| "colors (Mesh mp g (meshBasicMaterial c)) = [c]"
| "colors el = []"

fun background_of :: "canvas_child \<Rightarrow> string list" where
  "background_of (color_background args) = args"
| "background_of c = []"

fun scene_colors :: "scene_state \<Rightarrow> canvas_child \<Rightarrow> string list" where
  "scene_colors s (Scene_el sp) = colors (unfold (Scene sp s))"
| "scene_colors s c = []"

section \<open>Rendering with React\<close>

text \<open>
  React renders an element of a function component by calling the component and then
  rendering what it returned. drei's \<open>Text\<close> is not part of this repository: its
  render function is a parameter, and it may throw. An exception thrown while a
  component renders leaves the render; this repository has no error boundary.
  Components can nest without bound, so \<open>mount\<close> takes fuel: each component call uses
  one unit, and \<open>None\<close> means that the fuel ran out.
\<close>

type_synonym text_renderer = "text_props \<Rightarrow> string \<Rightarrow> exn + element"

fun mount :: "text_renderer \<Rightarrow> nat \<Rightarrow> element \<Rightarrow> (exn + element) option"
  and mount_all :: "text_renderer \<Rightarrow> nat \<Rightarrow> element list \<Rightarrow> (exn + element list) option" where
  "mount R n (Group gp cs) =
     (case mount_all R n cs of
        None \<Rightarrow> None
      | Some (Inl e) \<Rightarrow> Some (Inl e)
      | Some (Inr cs') \<Rightarrow> Some (Inr (Group gp cs')))"
| "mount R n (Mesh mp g m) = Some (Inr (Mesh mp g m))"
| "mount R n (Text_el tp s) = Some (R tp s)"
| "mount R 0 (SimpleHypercube_el hp) = None"
| "mount R (Suc n) (SimpleHypercube_el hp) = mount R n (SimpleHypercube hp)"
| "mount R 0 (TextLabel_el lp) = None"
| "mount R (Suc n) (TextLabel_el lp) =
     (case TextLabel lp of Inl e \<Rightarrow> Some (Inl e) | Inr el \<Rightarrow> mount R n el)"
| "mount_all R n [] = Some (Inr [])"
| "mount_all R n (c # cs) =
     (case mount R n c of
        None \<Rightarrow> None
      | Some (Inl e) \<Rightarrow> Some (Inl e)
      | Some (Inr c') \<Rightarrow>
          (case mount_all R n cs of
             None \<Rightarrow> None
           | Some (Inl e) \<Rightarrow> Some (Inl e)
           | Some (Inr cs') \<Rightarrow> Some (Inr (c' # cs'))))"

section \<open>The audio effect of Scene\<close>

subsection \<open>The Web Audio objects\<close>

text \<open>
  The browser's audio objects live in a store; an object reference is its index. The
  browser decides whether \<open>window.AudioContext\<close> or \<open>window.webkitAudioContext\<close> exists,
  and any call into the audio API may throw (\<open>throws\<close>). Two rules of the Web Audio
  standard are built in: \<open>start()\<close> on a started oscillator and \<open>stop()\<close> on one that was
  never started throw InvalidStateError.

  \<open>close()\<close> does not report its failure by throwing: it returns a promise, and the promise
  is rejected when the context is closed already or when the browser refuses
  (\<open>close_rejects\<close>). The cleanup neither awaits the promise nor gives it a handler, so
  no \<open>catch\<close> block sees the rejection: the browser reports it to the page as an unhandled
  rejection, recorded in \<open>unhandled_rejections\<close>.
\<close>

record oscillator_node =
  o_context :: nat
  o_type :: string
  o_frequency :: number
  o_output :: "nat option"
  o_started :: bool
  o_stopped :: bool

record gain_node =
  gn_context :: nat
  gn_gain :: number
  gn_to_destination :: bool

record world =
  contexts :: "bool list"  \<comment> \<open>for each AudioContext: has it been closed?\<close>
  oscillators :: "oscillator_node list"
  gains :: "gain_node list"
  console :: "string list"
  unhandled_rejections :: "exn list"

datatype api_call =
    New_AudioContext | CreateOscillator | CreateGain | Set_type | Set_frequency
  | Set_gain | Connect_oscillator | Connect_gain | Start | Stop | Close

record browser =
  has_AudioContext :: bool
  has_webkitAudioContext :: bool
  throws :: "api_call \<Rightarrow> world \<Rightarrow> bool"
  close_rejects :: "world \<Rightarrow> bool"

record locals =
  audioContext :: "nat option"
  oscillator :: "nat option"
  gainNode :: "nat option"

type_synonym frame = "locals \<times> world"
type_synonym step = "frame \<Rightarrow> exn + frame"

definition api :: "browser \<Rightarrow> api_call \<Rightarrow> step \<Rightarrow> step" where
  "api b c act = (\<lambda>(l, w).
     if throws b c w then Inl (Error ''thrown by the audio API'') else act (l, w))"

definition deref :: "nat option \<Rightarrow> (nat \<Rightarrow> exn + 'a) \<Rightarrow> exn + 'a" where
  \<comment> \<open>a method call or property access on a variable; on \<open>undefined\<close> it is a TypeError\<close>
  "deref v f = (case v of None \<Rightarrow> Inl (Error ''TypeError'') | Some r \<Rightarrow> f r)"

definition update_oscillator ::
  "nat \<Rightarrow> (oscillator_node \<Rightarrow> oscillator_node) \<Rightarrow> world \<Rightarrow> world" where
  "update_oscillator r f w = w\<lparr>oscillators := (oscillators w)[r := f (oscillators w ! r)]\<rparr>"

definition update_gain :: "nat \<Rightarrow> (gain_node \<Rightarrow> gain_node) \<Rightarrow> world \<Rightarrow> world" where
  "update_gain r f w = w\<lparr>gains := (gains w)[r := f (gains w ! r)]\<rparr>"

definition new_AudioContext :: "browser \<Rightarrow> step" where
  \<comment> \<open>\<open>audioContext = new AudioContext()\<close>\<close>
  "new_AudioContext b = api b New_AudioContext (\<lambda>(l, w).
     Inr (l\<lparr>audioContext := Some (length (contexts w))\<rparr>,
          w\<lparr>contexts := contexts w @ [False]\<rparr>))"

definition createOscillator :: "browser \<Rightarrow> step" where
  \<comment> \<open>\<open>oscillator = audioContext.createOscillator()\<close>\<close>
  "createOscillator b = api b CreateOscillator (\<lambda>(l, w). deref (audioContext l) (\<lambda>k.
     Inr (l\<lparr>oscillator := Some (length (oscillators w))\<rparr>,
          w\<lparr>oscillators := oscillators w @
               [\<lparr>o_context = k, o_type = ''sine'', o_frequency = 440, o_output = None,
                 o_started = False, o_stopped = False\<rparr>]\<rparr>)))"

definition createGain :: "browser \<Rightarrow> step" where
  \<comment> \<open>\<open>gainNode = audioContext.createGain()\<close>\<close>
  "createGain b = api b CreateGain (\<lambda>(l, w). deref (audioContext l) (\<lambda>k.
     Inr (l\<lparr>gainNode := Some (length (gains w))\<rparr>,
          w\<lparr>gains := gains w @
               [\<lparr>gn_context = k, gn_gain = 1, gn_to_destination = False\<rparr>]\<rparr>)))"

definition set_type :: "browser \<Rightarrow> string \<Rightarrow> step" where
  \<comment> \<open>\<open>oscillator.type = v\<close>\<close>
  "set_type b v = api b Set_type (\<lambda>(l, w). deref (oscillator l) (\<lambda>r.
     Inr (l, update_oscillator r (\<lambda>n. n\<lparr>o_type := v\<rparr>) w)))"

definition set_frequency :: "browser \<Rightarrow> number \<Rightarrow> step" where
  \<comment> \<open>\<open>oscillator.frequency.value = v\<close>\<close>
  "set_frequency b v = api b Set_frequency (\<lambda>(l, w). deref (oscillator l) (\<lambda>r.
     Inr (l, update_oscillator r (\<lambda>n. n\<lparr>o_frequency := v\<rparr>) w)))"

definition set_gain :: "browser \<Rightarrow> number \<Rightarrow> step" where
  \<comment> \<open>\<open>gainNode.gain.value = v\<close>\<close>
  "set_gain b v = api b Set_gain (\<lambda>(l, w). deref (gainNode l) (\<lambda>r.
     Inr (l, update_gain r (\<lambda>n. n\<lparr>gn_gain := v\<rparr>) w)))"

definition connect_oscillator :: "browser \<Rightarrow> step" where
  \<comment> \<open>\<open>oscillator.connect(gainNode)\<close>\<close>
  "connect_oscillator b = api b Connect_oscillator (\<lambda>(l, w). deref (oscillator l) (\<lambda>r.
     Inr (l, update_oscillator r (\<lambda>n. n\<lparr>o_output := gainNode l\<rparr>) w)))"

definition connect_gain :: "browser \<Rightarrow> step" where
  \<comment> \<open>\<open>gainNode.connect(audioContext.destination)\<close>\<close>
  "connect_gain b = api b Connect_gain (\<lambda>(l, w). deref (gainNode l) (\<lambda>r.
     deref (audioContext l) (\<lambda>k.
       Inr (l, update_gain r (\<lambda>n. n\<lparr>gn_to_destination := True\<rparr>) w))))"

definition start :: "browser \<Rightarrow> step" where
  \<comment> \<open>\<open>oscillator.start()\<close>\<close>
  "start b = api b Start (\<lambda>(l, w). deref (oscillator l) (\<lambda>r.
     if o_started (oscillators w ! r) then Inl (Error ''InvalidStateError'')
     else Inr (l, update_oscillator r (\<lambda>n. n\<lparr>o_started := True\<rparr>) w)))"

definition stop :: "browser \<Rightarrow> step" where
  \<comment> \<open>\<open>oscillator.stop()\<close>\<close>
  "stop b = api b Stop (\<lambda>(l, w). deref (oscillator l) (\<lambda>r.
     if \<not> o_started (oscillators w ! r) then Inl (Error ''InvalidStateError'')
     else Inr (l, update_oscillator r (\<lambda>n. n\<lparr>o_stopped := True\<rparr>) w)))"

definition close :: "browser \<Rightarrow> step" where
  \<comment> \<open>\<open>audioContext.close()\<close>, the promise it returns dropped\<close>
  "close b = api b Close (\<lambda>(l, w). deref (audioContext l) (\<lambda>k.
     if contexts w ! k \<or> close_rejects b w
     then Inr (l, w\<lparr>unhandled_rejections :=
                      unhandled_rejections w @ [Error ''InvalidStateError'']\<rparr>)
     else Inr (l, w\<lparr>contexts := (contexts w)[k := True]\<rparr>)))"

definition skip :: step where
  "skip = (\<lambda>f. Inr f)"

definition console_error :: "string \<Rightarrow> world \<Rightarrow> world" where
  "console_error msg w = w\<lparr>console := console w @ [msg]\<rparr>"

subsection \<open>Statements in sequence, and try/catch around them\<close>

fun run_steps :: "step list \<Rightarrow> frame \<Rightarrow> exn option \<times> frame" where
  \<comment> \<open>runs the statements in order; the first exception ends the run, with the variables
      and the store as they were when it was thrown\<close>
  "run_steps [] f = (None, f)"
| "run_steps (st # sts) f =
     (case st f of Inl e \<Rightarrow> (Some e, f) | Inr f' \<Rightarrow> run_steps sts f')"

definition try_catch_steps ::
  "step list \<Rightarrow> (exn \<Rightarrow> world \<Rightarrow> world) \<Rightarrow> frame \<Rightarrow> (exn + unit) \<times> frame" where
  "try_catch_steps body handler f =
     (case run_steps body f of
        (None, f') \<Rightarrow> (Inr (), f')
      | (Some e, (l, w)) \<Rightarrow> (Inr (), (l, handler e w)))"

subsection \<open>The effect and its cleanup\<close>

definition run_cleanup :: "browser \<Rightarrow> locals \<Rightarrow> world \<Rightarrow> (exn + unit) \<times> world" where
  \<comment> \<open>the function the effect returned; it closes over the effect's variables\<close>
  "run_cleanup b l w =
     (case try_catch_steps
             [if oscillator l \<noteq> None then stop b else skip,
              if audioContext l \<noteq> None then close b else skip]
             (\<lambda>e. console_error ''Audio cleanup error:'') (l, w) of
        (r, (l', w')) \<Rightarrow> (r, w'))"

definition audio_effect ::
  "browser \<Rightarrow> bool \<Rightarrow> bool \<Rightarrow> world \<Rightarrow> (exn + locals option) \<times> world" where
  \<comment> \<open>the result is the cleanup, if the effect returned one\<close>
  "audio_effect b sound_on is_hovered w =
     (if \<not> sound_on then (Inr None, w)
      else if \<not> (has_AudioContext b \<or> has_webkitAudioContext b) then (Inr None, w)
      else
        (case try_catch_steps
                [new_AudioContext b, createOscillator b, createGain b,
                 set_type b ''sine'',
                 set_frequency b (if is_hovered then 40 else 10),
                 set_gain b (if is_hovered then rd (2 / 10) else 0),
                 connect_oscillator b, connect_gain b, start b]
                (\<lambda>e. console_error ''Audio error:'')
                (\<lparr>audioContext = None, oscillator = None, gainNode = None\<rparr>, w) of
           (Inl e, (l, w')) \<Rightarrow> (Inl e, w')
         | (Inr u, (l, w')) \<Rightarrow> (Inr (Some l), w')))"

subsection \<open>React's bookkeeping for the effect\<close>

text \<open>
  After a render React compares the dependencies \<open>[soundEnabled, hovered]\<close> with those of
  the last run of the effect. If they differ, or on the first render, it runs the
  cleanup that the last run returned, if any, and then the effect. An exception that
  leaves the cleanup or the effect leaves the commit.
\<close>

record scene_instance =
  state :: scene_state
  effect_deps :: "(bool \<times> bool) option"
  effect_cleanup :: "locals option"

definition commit_effect ::
  "browser \<Rightarrow> scene_props \<Rightarrow> scene_instance \<Rightarrow> world \<Rightarrow> (exn + scene_instance) \<times> world" where
  "commit_effect b p c w =
     (if effect_deps c = Some (soundEnabled p, hovered (state c)) then (Inr c, w)
      else
        (case (case effect_cleanup c of None \<Rightarrow> (Inr (), w) | Some l \<Rightarrow> run_cleanup b l w) of
           (Inl e, w1) \<Rightarrow> (Inl e, w1)
         | (Inr u, w1) \<Rightarrow>
             (case audio_effect b (soundEnabled p) (hovered (state c)) w1 of
                (Inl e, w2) \<Rightarrow> (Inl e, w2)
              | (Inr cl, w2) \<Rightarrow>
                  (Inr (c\<lparr>effect_deps := Some (soundEnabled p, hovered (state c)),
                          effect_cleanup := cl\<rparr>), w2))))"

definition mount_scene ::
  "browser \<Rightarrow> scene_props \<Rightarrow> world \<Rightarrow> (exn + scene_instance) \<times> world" where
  "mount_scene b p w =
     commit_effect b p \<lparr>state = initial_state, effect_deps = None, effect_cleanup = None\<rparr> w"

definition handle_event ::
  "browser \<Rightarrow> scene_props \<Rightarrow> event \<Rightarrow> scene_instance \<Rightarrow> world
     \<Rightarrow> (exn + scene_instance) \<times> world" where
  \<comment> \<open>a pointer event: the handler updates the state, React renders and commits\<close>
  "handle_event b p ev c w = commit_effect b p (c\<lparr>state := dispatch p ev (state c)\<rparr>) w"

definition unmount :: "browser \<Rightarrow> scene_instance \<Rightarrow> world \<Rightarrow> (exn + unit) \<times> world" where
  "unmount b c w = (case effect_cleanup c of None \<Rightarrow> (Inr (), w) | Some l \<Rightarrow> run_cleanup b l w)"

definition audio_works :: "browser \<Rightarrow> bool" where
  \<comment> \<open>a browser that has the audio API and in which none of its calls fails\<close>
  "audio_works b =
     ((has_AudioContext b \<or> has_webkitAudioContext b)
      \<and> (\<forall>c w. \<not> throws b c w) \<and> (\<forall>w. \<not> close_rejects b w))"

definition tone_live :: "scene_instance \<Rightarrow> world \<Rightarrow> bool" where
  \<comment> \<open>the pending cleanup, if any, holds a started oscillator in an open context\<close>
  "tone_live c w =
     (case effect_cleanup c of
        None \<Rightarrow> True
      | Some l \<Rightarrow>
          (case (oscillator l, audioContext l) of
             (Some r, Some k) \<Rightarrow>
               r < length (oscillators w) \<and> o_started (oscillators w ! r)
               \<and> \<not> o_stopped (oscillators w ! r)
               \<and> k < length (contexts w) \<and> \<not> contexts w ! k
           | other \<Rightarrow> False))"

section \<open>Properties of the number model\<close>

text \<open>
  Rounding is to a nearest double: the result of \<open>rd\<close> is a significand of 53 bits at
  the binary exponent of the exact value, and it is at most half a unit in the last place
  away from the exact value.
\<close>

lemma pow2_pos: "0 < pow2 e"
  by (simp add: pow2_def)

lemma pow2_powi: "pow2 e = 2 powi e"
  by (simp add: pow2_def power_int_def power_one_over)

lemma pow2_add: "pow2 (a + b) = pow2 a * pow2 b"
  by (simp add: pow2_powi power_int_add)

lemma pow2_Suc: "pow2 (e + 1) = 2 * pow2 e"
  by (simp add: pow2_powi power_int_add)

lemma pow2_pred: "pow2 (e - 1) = pow2 e / 2"
  by (simp add: pow2_powi power_int_diff)

lemma round_half_even_error: "\<bar>of_int (round_half_even m) - m\<bar> \<le> 1 / 2"
proof -
  have "of_int \<lfloor>m\<rfloor> \<le> m" "m < of_int \<lfloor>m\<rfloor> + 1" by linarith+
  then show ?thesis
    by (auto simp add: round_half_even_def Let_def abs_le_iff)
qed

lemma bitlen_rat_bounds:
  assumes "0 < p"
  shows "pow2 (bitlen p - 1) \<le> of_int p" "(of_int p :: rat) < pow2 (bitlen p)"
proof -
  from assms have b: "1 \<le> bitlen p"
    by (simp add: bitlen_alt_def)
  from bitlen_bounds [OF assms]
  have lo: "2 ^ nat (bitlen p - 1) \<le> p" and hi: "p < 2 ^ nat (bitlen p)" by auto
  from lo have "(of_int (2 ^ nat (bitlen p - 1)) :: rat) \<le> of_int p"
    by (simp only: of_int_le_iff)
  with b show "pow2 (bitlen p - 1) \<le> of_int p"
    by (simp add: pow2_def)
  from hi have "(of_int p :: rat) < of_int (2 ^ nat (bitlen p))"
    by (simp only: of_int_less_iff)
  with b show "(of_int p :: rat) < pow2 (bitlen p)"
    by (simp add: pow2_def)
qed

lemma ilog2_bounds:
  assumes "0 < x"
  shows "pow2 (ilog2 x) \<le> x \<and> x < pow2 (ilog2 x + 1)"
proof -
  obtain p q where pq: "quotient_of x = (p, q)" by (cases "quotient_of x")
  then have q: "0 < q" and x: "x = of_int p / of_int q"
    using quotient_of_denom_pos quotient_of_div by auto
  with assms have p: "0 < p"
    by (simp add: zero_less_divide_iff)
  define e where "e = bitlen p - bitlen q"
  note bp = bitlen_rat_bounds [OF p] and bq = bitlen_rat_bounds [OF q]
  have qpos: "(0::rat) < of_int q" using q by simp
  have "x * of_int q < pow2 (bitlen p)" using bp(2) x qpos by simp
  also have "pow2 (bitlen p) = pow2 (e + 1) * pow2 (bitlen q - 1)"
    by (simp add: e_def pow2_add [symmetric])
  also have "\<dots> \<le> pow2 (e + 1) * of_int q"
    using bq(1) pow2_pos [of "e + 1"] by simp
  finally have up: "x < pow2 (e + 1)" using qpos by simp
  have "pow2 (e - 1) * of_int q < pow2 (e - 1) * pow2 (bitlen q)"
    using bq(2) pow2_pos [of "e - 1"] by simp
  also have "\<dots> = pow2 (bitlen p - 1)"
    by (simp add: e_def pow2_add [symmetric])
  also have "\<dots> \<le> x * of_int q" using bp(1) x qpos by simp
  finally have lo: "pow2 (e - 1) < x" using qpos by simp
  show ?thesis
    using up lo pq by (auto simp add: ilog2_def Let_def e_def [symmetric])
qed

lemma rd_error:
  assumes "x \<noteq> 0"
  shows "\<bar>rd x - x\<bar> \<le> pow2 (ilog2 \<bar>x\<bar> - 53)"
proof -
  define u where "u = pow2 (ilog2 \<bar>x\<bar> - 52)"
  have u: "0 < u" by (simp add: u_def pow2_pos)
  have "rd x - x = (of_int (round_half_even (x / u)) - x / u) * u"
    using assms u by (simp add: rd_def u_def [symmetric] Let_def algebra_simps)
  then have "\<bar>rd x - x\<bar> = \<bar>of_int (round_half_even (x / u)) - x / u\<bar> * u"
    using u by (simp add: abs_mult)
  also have "\<dots> \<le> (1 / 2) * u"
    using round_half_even_error [of "x / u"] u by (simp add: mult_right_mono)
  also have "\<dots> = pow2 (ilog2 \<bar>x\<bar> - 53)"
    using pow2_pred [of "ilog2 \<bar>x\<bar> - 52"] by (simp add: u_def)
  finally show ?thesis .
qed

lemma rd_significand:
  assumes "x \<noteq> 0"
  shows "\<exists>n. rd x = of_int n * pow2 (ilog2 \<bar>x\<bar> - 52) \<and> 2 ^ 52 \<le> \<bar>n\<bar> \<and> \<bar>n\<bar> \<le> 2 ^ 53"
proof -
  define u where "u = pow2 (ilog2 \<bar>x\<bar> - 52)"
  define n where "n = round_half_even (x / u)"
  have u: "0 < u" by (simp add: u_def pow2_pos)
  have rd: "rd x = of_int n * u"
    using assms by (simp add: rd_def u_def [symmetric] n_def Let_def)
  from assms have "0 < \<bar>x\<bar>" by simp
  from ilog2_bounds [OF this]
  have "pow2 (ilog2 \<bar>x\<bar>) \<le> \<bar>x\<bar>" "\<bar>x\<bar> < pow2 (ilog2 \<bar>x\<bar> + 1)" by auto
  moreover have "pow2 (ilog2 \<bar>x\<bar>) = 2 ^ 52 * u"
  proof -
    have "pow2 (ilog2 \<bar>x\<bar>) = pow2 (52 + (ilog2 \<bar>x\<bar> - 52))" by simp
    also have "\<dots> = pow2 52 * u" by (simp only: pow2_add u_def)
    also have "pow2 52 = 2 ^ 52" by (simp add: pow2_def)
    finally show ?thesis .
  qed
  moreover have "pow2 (ilog2 \<bar>x\<bar> + 1) = 2 ^ 53 * u"
  proof -
    have "ilog2 \<bar>x\<bar> + 1 = 53 + (ilog2 \<bar>x\<bar> - 52)" by arith
    then have "pow2 (ilog2 \<bar>x\<bar> + 1) = pow2 (53 + (ilog2 \<bar>x\<bar> - 52))" by (rule arg_cong)
    also have "\<dots> = pow2 53 * u" by (simp only: pow2_add u_def)
    also have "pow2 53 = 2 ^ 53" by (simp add: pow2_def)
    finally show ?thesis .
  qed
  ultimately have m: "2 ^ 52 \<le> \<bar>x / u\<bar>" "\<bar>x / u\<bar> < 2 ^ 53"
    using u by (simp_all add: abs_divide pos_le_divide_eq pos_divide_less_eq abs_of_pos)
  have e: "\<bar>of_int n - x / u\<bar> \<le> 1 / 2"
    unfolding n_def by (rule round_half_even_error)
  have lo: "(2 ^ 52 :: rat) - 1 / 2 \<le> \<bar>of_int n\<bar>" using m(1) e by linarith
  have hi: "\<bar>of_int n :: rat\<bar> < 2 ^ 53 + 1 / 2" using m(2) e by linarith
  have "(of_int (2 ^ 52 - 1) :: rat) < of_int \<bar>n\<bar>" using lo by simp
  then have "2 ^ 52 - 1 < \<bar>n\<bar>" by (simp only: of_int_less_iff)
  moreover have "(of_int \<bar>n\<bar> :: rat) < of_int (2 ^ 53 + 1)" using hi by simp
  then have "\<bar>n\<bar> < 2 ^ 53 + 1" by (simp only: of_int_less_iff)
  ultimately show ?thesis using rd by (auto simp add: u_def)
qed

text \<open>
  Three known values: the literal \<open>0.2\<close> is \<open>0x3FC999999999999A\<close>; \<open>0.1 + 0.2\<close> is
  0.30000000000000004 and \<open>3 * 0.2\<close> is 0.6000000000000001, neither the double nearest
  to the exact result of the decimal expression.
\<close>

lemma rd_known_values:
  "rd (2 / 10) = 3602879701896397 / 2 ^ 54
   \<and> fadd (rd (1 / 10)) (rd (2 / 10)) = 5404319552844596 / 2 ^ 54
   \<and> fadd (rd (1 / 10)) (rd (2 / 10)) \<noteq> rd (3 / 10)
   \<and> fmul 3 (rd (2 / 10)) \<noteq> rd (6 / 10)"
  by code_simp

lemma layer_offsets:
  "map (\<lambda>i. fmul (fsub (of_nat i) 2) 2) [0, 1, 2, 3, 4] = [- 4, - 2, 0, 2, 4]"
  by code_simp

lemma layer_size_nearest:
  "map layer_size [0, 1, 2, 3, 4] = map (\<lambda>i. rd (2 - of_nat i * (2 / 10))) [0, 1, 2, 3, 4]"
  by code_simp

lemma layer_size_decreasing:
  "layer_size 1 < layer_size 0 \<and> layer_size 2 < layer_size 1
   \<and> layer_size 3 < layer_size 2 \<and> layer_size 4 < layer_size 3"
  by code_simp

lemma quarter_turn: "fdiv Math_PI 4 = Math_PI / 4 \<and> Math_PI / 4 \<noteq> 0"
  by code_simp

section \<open>Properties of the rendered tree\<close>

lemma length_stages: "length GROWTH_STAGES = 5"
  by (simp add: GROWTH_STAGES_def)

lemma nth_layer:
  "i < 5 \<Longrightarrow> children (SimpleHypercube hp) ! i = layer hp (i, GROWTH_STAGES ! i)"
  by (simp add: SimpleHypercube_def nth_append length_stages nth_enumerate_eq)

text \<open>
  C1. A click flips \<open>clicked\<close> and no other event changes it, so two clicks in a row restore
  the state. The group that Scene returns is rotated by \<open>Math.PI / 4\<close> about z exactly
  when \<open>clicked\<close> holds and by 0 otherwise. The hypercube below it has, after its five
  layers, one more group exactly when \<open>clicked\<close> holds: the fractal group of three boxes
  and a caption.
\<close>

theorem click_toggles_rotation_and_fractal:
  "clicked (dispatch p ev s) = (if ev = Click then \<not> clicked s else clicked s)
   \<and> dispatch p Click (dispatch p Click s) = s
   \<and> rotation_of (unfold (Scene p s)) = Some [0, 0, if clicked s then Math_PI / 4 else 0]
   \<and> Math_PI / 4 \<noteq> 0
   \<and> (\<exists>H. children (unfold (Scene p s)) = [H]
        \<and> length (children H) = (if clicked s then 6 else 5)
        \<and> map (\<lambda>g. map geometry_of (children g)) (drop 5 (children H)) =
            (if clicked s
             then [[Some (boxGeometry [fractal_size 0, fractal_size 0, fractal_size 0]),
                    Some (boxGeometry [fractal_size 1, fractal_size 1, fractal_size 1]),
                    Some (boxGeometry [fractal_size 2, fractal_size 2, fractal_size 2]),
                    None]]
             else []))"
proof -
  have flip: "clicked (dispatch p ev s) = (if ev = Click then \<not> clicked s else clicked s)"
    by (cases ev) (simp_all add: dispatch_def Scene_def)
  have twice: "dispatch p Click (dispatch p Click s) = s"
    by (simp add: dispatch_def Scene_def)
  have rot: "rotation_of (unfold (Scene p s)) = Some [0, 0, if clicked s then Math_PI / 4 else 0]"
    using quarter_turn by (simp add: Scene_def)
  have sub: "\<exists>H. children (unfold (Scene p s)) = [H]
        \<and> length (children H) = (if clicked s then 6 else 5)
        \<and> map (\<lambda>g. map geometry_of (children g)) (drop 5 (children H)) =
            (if clicked s
             then [[Some (boxGeometry [fractal_size 0, fractal_size 0, fractal_size 0]),
                    Some (boxGeometry [fractal_size 1, fractal_size 1, fractal_size 1]),
                    Some (boxGeometry [fractal_size 2, fractal_size 2, fractal_size 2]),
                    None]]
             else [])"
    by (simp add: Scene_def SimpleHypercube_def length_stages fractal_def fractal_cube_def)
  from flip twice rot sub quarter_turn show ?thesis by blast
qed

text \<open>
  C2. For each of the five layers, index \<open>i\<close> from 0 to 4, the layer's group is at
  \<open>[0, 0, 0]\<close> when not hovered and at \<open>[0, (i - 2) * 2, 0]\<close> when hovered; the double
  arithmetic is exact on these values.
\<close>

theorem layer_position:
  "i < 5 \<Longrightarrow>
   position_of (children (SimpleHypercube hp) ! i) =
     Some (if h_hovered hp then [0, (of_nat i - 2) * 2, 0] else [0, 0, 0])"
proof -
  assume "i < 5"
  then have cases: "i = 0 \<or> i = 1 \<or> i = 2 \<or> i = 3 \<or> i = 4" by arith
  have off: "fmul (fsub (of_nat i) 2) 2 = (of_nat i - 2) * 2"
    using cases layer_offsets by auto
  show ?thesis
    using \<open>i < 5\<close> off by (simp add: nth_layer layer_def getLayerPosition_def no_props_def)
qed

theorem layer_position_witness:
  "(0::nat) < 5 \<and> (4::nat) < 5
   \<and> position_of (children (SimpleHypercube
      \<lparr>h_hovered = True, h_clicked = False, h_primaryColor = ''#FF4D4D'',
       h_secondaryColor = ''#4D4DFF'', h_accentColor = ''#FFD700'', h_highContrast = False\<rparr>) ! 0) = Some [0, - 4, 0]
   \<and> position_of (children (SimpleHypercube
      \<lparr>h_hovered = True, h_clicked = False, h_primaryColor = ''#FF4D4D'',
       h_secondaryColor = ''#4D4DFF'', h_accentColor = ''#FFD700'', h_highContrast = False\<rparr>) ! 4) = Some [0, 4, 0]
   \<and> position_of (children (SimpleHypercube
      \<lparr>h_hovered = False, h_clicked = False, h_primaryColor = ''#FF4D4D'',
       h_secondaryColor = ''#4D4DFF'', h_accentColor = ''#FFD700'', h_highContrast = False\<rparr>) ! 4) = Some [0, 0, 0]"
  using layer_position [of 0 "\<lparr>h_hovered = True, h_clicked = False, h_primaryColor = ''#FF4D4D'',
       h_secondaryColor = ''#4D4DFF'', h_accentColor = ''#FFD700'', h_highContrast = False\<rparr>"]
    layer_position [of 4 "\<lparr>h_hovered = True, h_clicked = False, h_primaryColor = ''#FF4D4D'',
       h_secondaryColor = ''#4D4DFF'', h_accentColor = ''#FFD700'', h_highContrast = False\<rparr>"]
    layer_position [of 4 "\<lparr>h_hovered = False, h_clicked = False, h_primaryColor = ''#FF4D4D'',
       h_secondaryColor = ''#4D4DFF'', h_accentColor = ''#FFD700'', h_highContrast = False\<rparr>"]
  by simp

text \<open>
  C3. For each layer index \<open>i\<close> from 0 to 4, the box of the layer has the same edge on all
  three axes, the value of \<open>2 - i * 0.2\<close> in double arithmetic; that value is the double
  nearest to the exact \<open>2 - i / 5\<close>; and from index 1 on it is strictly less than the
  edge of the layer before.
\<close>

theorem layer_cube_size:
  "i < 5 \<Longrightarrow>
   geometry_of (children (children (SimpleHypercube hp) ! i) ! 0) =
     Some (boxGeometry [fsub 2 (fmul (of_nat i) (rd (2 / 10))),
                        fsub 2 (fmul (of_nat i) (rd (2 / 10))),
                        fsub 2 (fmul (of_nat i) (rd (2 / 10)))])
   \<and> fsub 2 (fmul (of_nat i) (rd (2 / 10))) = rd (2 - of_nat i * (2 / 10))
   \<and> (1 \<le> i \<longrightarrow> fsub 2 (fmul (of_nat i) (rd (2 / 10)))
                  < fsub 2 (fmul (of_nat (i - 1)) (rd (2 / 10))))"
proof -
  assume "i < 5"
  then have cases: "i = 0 \<or> i = 1 \<or> i = 2 \<or> i = 3 \<or> i = 4" by arith
  have geo: "geometry_of (children (children (SimpleHypercube hp) ! i) ! 0) =
     Some (boxGeometry [layer_size i, layer_size i, layer_size i])"
    using \<open>i < 5\<close> by (simp add: nth_layer layer_def)
  have near: "layer_size i = rd (2 - of_nat i * (2 / 10))"
    using cases layer_size_nearest by auto
  have decr: "1 \<le> i \<longrightarrow> layer_size i < layer_size (i - 1)"
    using cases layer_size_decreasing by auto
  from geo near decr show ?thesis by (simp add: layer_size_def)
qed

theorem layer_cube_size_witness:
  "(3::nat) < 5 \<and> (1::nat) \<le> 3
   \<and> geometry_of (children (children (SimpleHypercube
      \<lparr>h_hovered = True, h_clicked = False, h_primaryColor = ''#FF4D4D'',
       h_secondaryColor = ''#4D4DFF'', h_accentColor = ''#FFD700'', h_highContrast = False\<rparr>) ! 3) ! 0) =
       Some (boxGeometry [3152519739159347 / 2 ^ 51, 3152519739159347 / 2 ^ 51,
                          3152519739159347 / 2 ^ 51])
   \<and> (3152519739159347 / 2 ^ 51 :: rat) < 3602879701896397 / 2 ^ 51"
proof -
  have v: "fsub 2 (fmul (of_nat 3) (rd (2 / 10))) = 3152519739159347 / 2 ^ 51"
    by code_simp
  show ?thesis
    using layer_cube_size [of 3 "\<lparr>h_hovered = True, h_clicked = False, h_primaryColor = ''#FF4D4D'',
       h_secondaryColor = ''#4D4DFF'', h_accentColor = ''#FFD700'', h_highContrast = False\<rparr>"] v
    by simp
qed

text \<open>
  C4. For each layer index \<open>i\<close> from 0 to 4, the colour and the emissive colour of the
  layer's material are entry \<open>i mod 3\<close> of the palette (primary, secondary, accent); so
  layers 0 and 3 have the same entry, and so have layers 1 and 4.
\<close>

theorem layer_palette_slot:
  "i < 5 \<Longrightarrow>
   material_of (children (children (SimpleHypercube hp) ! i) ! 0) =
     Some (meshStandardMaterial
       \<lparr>color = [h_primaryColor hp, h_secondaryColor hp, h_accentColor hp] ! (i mod 3),
        wireframe = True,
        emissive = [h_primaryColor hp, h_secondaryColor hp, h_accentColor hp] ! (i mod 3),
        emissiveIntensity = rd (3 / 10), transparent = True, opacity = rd (7 / 10)\<rparr>)"
proof -
  assume "i < 5"
  then have cases: "i = 0 \<or> i = 1 \<or> i = 2 \<or> i = 3 \<or> i = 4" by arith
  have slot: "layer_color hp i = [h_primaryColor hp, h_secondaryColor hp, h_accentColor hp] ! (i mod 3)"
    using cases by (auto simp add: layer_color_def)
  show ?thesis
    using \<open>i < 5\<close> slot by (simp add: nth_layer layer_def)
qed

theorem layer_palette_slot_witness:
  "(3::nat) < 5 \<and> (4::nat) < 5
   \<and> material_of (children (children (SimpleHypercube
      \<lparr>h_hovered = True, h_clicked = False, h_primaryColor = ''#FF4D4D'',
       h_secondaryColor = ''#4D4DFF'', h_accentColor = ''#FFD700'', h_highContrast = False\<rparr>) ! 3) ! 0) =
       Some (meshStandardMaterial
         \<lparr>color = ''#FF4D4D'', wireframe = True, emissive = ''#FF4D4D'',
          emissiveIntensity = rd (3 / 10), transparent = True, opacity = rd (7 / 10)\<rparr>)
   \<and> material_of (children (children (SimpleHypercube
      \<lparr>h_hovered = True, h_clicked = False, h_primaryColor = ''#FF4D4D'',
       h_secondaryColor = ''#4D4DFF'', h_accentColor = ''#FFD700'', h_highContrast = False\<rparr>) ! 4) ! 0) =
       Some (meshStandardMaterial
         \<lparr>color = ''#4D4DFF'', wireframe = True, emissive = ''#4D4DFF'',
          emissiveIntensity = rd (3 / 10), transparent = True, opacity = rd (7 / 10)\<rparr>)"
  using layer_palette_slot [of 3 "\<lparr>h_hovered = True, h_clicked = False, h_primaryColor = ''#FF4D4D'',
       h_secondaryColor = ''#4D4DFF'', h_accentColor = ''#FFD700'', h_highContrast = False\<rparr>"]
    layer_palette_slot [of 4 "\<lparr>h_hovered = True, h_clicked = False, h_primaryColor = ''#FF4D4D'',
       h_secondaryColor = ''#4D4DFF'', h_accentColor = ''#FFD700'', h_highContrast = False\<rparr>"]
  by simp

text \<open>
  C8. The three colours that Scene passes to the hypercube are all \<open>#FFFFFF\<close> when
  \<open>highContrast\<close> holds, and \<open>#FF4D4D\<close>, \<open>#4D4DFF\<close>, \<open>#FFD700\<close> when it does not.
\<close>

theorem palette_by_contrast:
  "children (Scene p s) =
     [SimpleHypercube_el
        \<lparr>h_hovered = hovered s, h_clicked = clicked s,
         h_primaryColor = (if highContrast p then ''#FFFFFF'' else ''#FF4D4D''),
         h_secondaryColor = (if highContrast p then ''#FFFFFF'' else ''#4D4DFF''),
         h_accentColor = (if highContrast p then ''#FFFFFF'' else ''#FFD700''),
         h_highContrast = highContrast p\<rparr>]"
  by (simp add: Scene_def primaryColor_def secondaryColor_def accentColor_def)

subsection \<open>Colours under high contrast\<close>

lemma colors_layer:
  "c \<in> set (colors (layer hp x)) \<Longrightarrow>
   c \<in> {h_primaryColor hp, h_secondaryColor hp, h_accentColor hp}"
  by (cases x) (auto simp add: layer_def layer_color_def split: if_splits)

lemma colors_fractal:
  "c \<in> set (colors (fractal hp)) \<Longrightarrow> c = h_accentColor hp"
  by (auto simp add: fractal_def fractal_cube_def)

lemma colors_hypercube:
  "c \<in> set (colors (SimpleHypercube hp)) \<Longrightarrow>
   c \<in> {h_primaryColor hp, h_secondaryColor hp, h_accentColor hp}"
  using colors_layer colors_fractal
  by (fastforce simp add: SimpleHypercube_def split: if_splits)

text \<open>
  C9, as stated: with \<open>highContrast\<close> set, the canvas background is white like the layers.
  It is not: the background is \<open>#000000\<close>.
\<close>

theorem high_contrast_background_not_white:
  "concat (map background_of
     (HypercubeVisualization \<lparr>a_highContrast = True, a_soundEnabled = False\<rparr>)) = [''#000000'']
   \<and> ''#000000'' \<noteq> ''#FFFFFF''"
  by (simp add: HypercubeVisualization_def)

text \<open>
  C9, amended: the canvas background is \<open>#000000\<close> when \<open>highContrast\<close> holds and \<open>#0F0F1A\<close>
  when it does not; when \<open>highContrast\<close> holds, every colour and emissive colour of the
  scene's materials (the layers and the fractal cubes) is \<open>#FFFFFF\<close>.
\<close>

theorem high_contrast_colors:
  "concat (map background_of (HypercubeVisualization a)) =
     [if a_highContrast a then ''#000000'' else ''#0F0F1A'']
   \<and> (a_highContrast a \<longrightarrow>
        (\<forall>c \<in> set (concat (map (scene_colors s) (HypercubeVisualization a))). c = ''#FFFFFF''))"
proof -
  have bg: "concat (map background_of (HypercubeVisualization a)) =
     [if a_highContrast a then ''#000000'' else ''#0F0F1A'']"
    by (simp add: HypercubeVisualization_def)
  have fg: "c = ''#FFFFFF''"
    if hc: "a_highContrast a"
      and c: "c \<in> set (concat (map (scene_colors s) (HypercubeVisualization a)))" for c
  proof -
    from c have "c \<in> set (colors (SimpleHypercube
          \<lparr>h_hovered = hovered s, h_clicked = clicked s,
           h_primaryColor = primaryColor True, h_secondaryColor = secondaryColor True,
           h_accentColor = accentColor True, h_highContrast = True\<rparr>))"
      using hc by (simp add: HypercubeVisualization_def Scene_def)
    from colors_hypercube [OF this] show ?thesis
      by (simp add: primaryColor_def secondaryColor_def accentColor_def)
  qed
  from bg fg show ?thesis by blast
qed

theorem high_contrast_colors_witness:
  "a_highContrast \<lparr>a_highContrast = True, a_soundEnabled = False\<rparr>
   \<and> concat (map background_of
        (HypercubeVisualization \<lparr>a_highContrast = True, a_soundEnabled = False\<rparr>)) = [''#000000'']
   \<and> set (concat (map (scene_colors \<lparr>hovered = False, clicked = True\<rparr>)
        (HypercubeVisualization \<lparr>a_highContrast = True, a_soundEnabled = False\<rparr>))) = {''#FFFFFF''}"
proof -
  have ne: "''#FFFFFF'' \<in> set (concat (map (scene_colors \<lparr>hovered = False, clicked = True\<rparr>)
        (HypercubeVisualization \<lparr>a_highContrast = True, a_soundEnabled = False\<rparr>)))"
    by (simp add: HypercubeVisualization_def Scene_def SimpleHypercube_def fractal_def
          fractal_cube_def accentColor_def)
  show ?thesis
    using high_contrast_colors [of "\<lparr>a_highContrast = True, a_soundEnabled = False\<rparr>"
                                   "\<lparr>hovered = False, clicked = True\<rparr>"] ne
    by auto
qed

subsection \<open>Caption colours\<close>

lemma labels_layer:
  "lp \<in> set (labels (layer hp x)) \<Longrightarrow>
   l_color lp = Some ''#FFFFFF'' \<and> l_outlineColor lp = Some ''#000000''"
  by (cases x) (auto simp add: layer_def textColor_def textOutlineColor_def split: if_splits)

lemma labels_fractal:
  "lp \<in> set (labels (fractal hp)) \<Longrightarrow>
   l_color lp = Some ''#FFFFFF'' \<and> l_outlineColor lp = Some ''#000000''"
  by (auto simp add: fractal_def fractal_cube_def textColor_def textOutlineColor_def)

lemma labels_hypercube:
  "lp \<in> set (labels (SimpleHypercube hp)) \<Longrightarrow>
   l_color lp = Some ''#FFFFFF'' \<and> l_outlineColor lp = Some ''#000000''"
  using labels_layer labels_fractal
  by (fastforce simp add: SimpleHypercube_def split: if_splits)

text \<open>
  C10. Whatever \<open>highContrast\<close> is, every TextLabel of the scene is given the colour
  \<open>#FFFFFF\<close> and the outline colour \<open>#000000\<close>.
\<close>

theorem label_colors_fixed:
  "\<forall>lp \<in> set (labels (unfold (Scene p s))).
     l_color lp = Some ''#FFFFFF'' \<and> l_outlineColor lp = Some ''#000000''"
  using labels_hypercube by (simp add: Scene_def)

theorem label_colors_fixed_witness:
  "labels (unfold (Scene \<lparr>highContrast = True, soundEnabled = False\<rparr>
                         \<lparr>hovered = False, clicked = True\<rparr>)) =
     [\<lparr>l_text = ''Fractal Self-Reclamation'', l_position = [0, 3 / 2, 0],
       l_color = Some ''#FFFFFF'', l_outlineColor = Some ''#000000'',
       l_fontSize = Some (rd (15 / 100))\<rparr>]
   \<and> map (\<lambda>lp. (l_color lp, l_outlineColor lp))
        (labels (unfold (Scene \<lparr>highContrast = False, soundEnabled = False\<rparr>
                               \<lparr>hovered = False, clicked = True\<rparr>))) =
       [(Some ''#FFFFFF'', Some ''#000000'')]"
proof -
  have r: "rd (15 / 10) = 3 / 2" by code_simp
  show ?thesis
    using label_colors_fixed [of "\<lparr>highContrast = True, soundEnabled = False\<rparr>"
                                 "\<lparr>hovered = False, clicked = True\<rparr>"]
      label_colors_fixed [of "\<lparr>highContrast = False, soundEnabled = False\<rparr>"
                             "\<lparr>hovered = False, clicked = True\<rparr>"] r
    by (simp add: Scene_def SimpleHypercube_def GROWTH_STAGES_def enumerate_eq_zip layer_def
          fractal_def fractal_cube_def textColor_def textOutlineColor_def)
qed

section \<open>Properties of the audio effect\<close>

lemma api_works: "audio_works b \<Longrightarrow> api b c act = act"
  by (auto simp add: api_def audio_works_def)

lemma effect_works:
  "audio_works b \<Longrightarrow>
   audio_effect b True h w =
     (Inr (Some \<lparr>audioContext = Some (length (contexts w)),
                 oscillator = Some (length (oscillators w)),
                 gainNode = Some (length (gains w))\<rparr>),
      w\<lparr>contexts := contexts w @ [False],
        oscillators := oscillators w @
          [\<lparr>o_context = length (contexts w), o_type = ''sine'',
            o_frequency = (if h then 40 else 10), o_output = Some (length (gains w)),
            o_started = True, o_stopped = False\<rparr>],
        gains := gains w @
          [\<lparr>gn_context = length (contexts w), gn_gain = (if h then rd (2 / 10) else 0),
            gn_to_destination = True\<rparr>]\<rparr>)"
  by (simp add: audio_effect_def try_catch_steps_def api_works new_AudioContext_def
        createOscillator_def createGain_def set_type_def set_frequency_def set_gain_def
        connect_oscillator_def connect_gain_def start_def deref_def update_oscillator_def
        update_gain_def audio_works_def)

lemma effect_off: "audio_effect b False h w = (Inr None, w)"
  by (simp add: audio_effect_def)

lemma cleanup_works:
  "audio_works b \<Longrightarrow> oscillator l = Some r \<Longrightarrow> audioContext l = Some k \<Longrightarrow>
   o_started (oscillators w ! r) \<Longrightarrow> \<not> contexts w ! k \<Longrightarrow>
   run_cleanup b l w =
     (Inr (), w\<lparr>oscillators := (oscillators w)[r := (oscillators w ! r)\<lparr>o_stopped := True\<rparr>],
               contexts := (contexts w)[k := True]\<rparr>)"
  by (simp add: run_cleanup_def try_catch_steps_def api_works stop_def close_def deref_def
        update_oscillator_def audio_works_def)

lemma commit_effect_changed:
  assumes works: "audio_works b"
    and live: "tone_live c w"
    and changed: "effect_deps c \<noteq> Some (soundEnabled p, hovered (state c))"
  shows "\<exists>c' w'. commit_effect b p c w = (Inr c', w')
     \<and> (\<forall>l r k. effect_cleanup c = Some l \<and> oscillator l = Some r \<and> audioContext l = Some k
           \<longrightarrow> o_stopped (oscillators w' ! r) \<and> contexts w' ! k)
     \<and> (soundEnabled p \<longrightarrow>
           effect_cleanup c' = Some \<lparr>audioContext = Some (length (contexts w)),
                                     oscillator = Some (length (oscillators w)),
                                     gainNode = Some (length (gains w))\<rparr>
           \<and> \<not> contexts w' ! length (contexts w)
           \<and> length (contexts w') = Suc (length (contexts w))
           \<and> oscillators w' ! length (oscillators w) =
               \<lparr>o_context = length (contexts w), o_type = ''sine'',
                o_frequency = (if hovered (state c) then 40 else 10),
                o_output = Some (length (gains w)), o_started = True, o_stopped = False\<rparr>
           \<and> length (oscillators w') = Suc (length (oscillators w))
           \<and> gains w' ! length (gains w) =
               \<lparr>gn_context = length (contexts w),
                gn_gain = (if hovered (state c) then rd (2 / 10) else 0),
                gn_to_destination = True\<rparr>
           \<and> length (gains w') = Suc (length (gains w)))
     \<and> (\<not> soundEnabled p \<longrightarrow>
           effect_cleanup c' = None
           \<and> length (contexts w') = length (contexts w)
           \<and> length (oscillators w') = length (oscillators w)
           \<and> gains w' = gains w)
     \<and> tone_live c' w' \<and> state c' = state c"
proof (cases "effect_cleanup c")
  case None
  show ?thesis
  proof (cases "soundEnabled p")
    case True
    with None changed works show ?thesis
      by (simp add: commit_effect_def effect_works tone_live_def nth_append)
  next
    case False
    with None changed show ?thesis
      by (simp add: commit_effect_def effect_off tone_live_def)
  qed
next
  case (Some l)
  with live obtain r k where l: "oscillator l = Some r" "audioContext l = Some k"
    and r: "r < length (oscillators w)" "o_started (oscillators w ! r)"
    and k: "k < length (contexts w)" "\<not> contexts w ! k"
    by (auto simp add: tone_live_def split: option.splits)
  note cl = cleanup_works [OF works l r(2) k(2)]
  show ?thesis
  proof (cases "soundEnabled p")
    case True
    with Some changed works l r k cl show ?thesis
      by (simp add: commit_effect_def effect_works tone_live_def nth_append)
  next
    case False
    with Some changed l r k cl show ?thesis
      by (simp add: commit_effect_def effect_off tone_live_def)
  qed
qed

text \<open>
  The hypothesis \<open>tone_live\<close> holds of every state that a browser with working audio can
  reach: it holds before the first commit, and every commit keeps it.
\<close>

lemma tone_live_initial:
  "tone_live \<lparr>state = initial_state, effect_deps = None, effect_cleanup = None\<rparr> w"
  by (simp add: tone_live_def)

lemma tone_live_commit:
  assumes "audio_works b" and "tone_live c w" and "commit_effect b p c w = (Inr c', w')"
  shows "tone_live c' w'"
proof (cases "effect_deps c = Some (soundEnabled p, hovered (state c))")
  case True
  with assms show ?thesis by (simp add: commit_effect_def)
next
  case False
  from commit_effect_changed [OF assms(1,2) False] assms(3) show ?thesis by auto
qed

lemma tone_live_event:
  assumes "audio_works b" and "tone_live c w" and "handle_event b p ev c w = (Inr c', w')"
  shows "tone_live c' w'"
proof -
  have "tone_live (c\<lparr>state := dispatch p ev (state c)\<rparr>) w"
    using assms(2) by (simp add: tone_live_def)
  from tone_live_commit [OF assms(1) this] assms(3) show ?thesis
    by (simp add: handle_event_def)
qed

text \<open>
  C5, as stated: whenever \<open>soundEnabled\<close> or \<open>hovered\<close> changes and \<open>soundEnabled\<close> holds, a
  new started oscillator is made. It is not, in a browser that has neither
  \<open>AudioContext\<close> nor \<open>webkitAudioContext\<close>: the effect returns at its guard
  \<open>if (!AudioContext) return\<close>, makes nothing and leaves no cleanup.
\<close>

theorem sound_on_without_audio_api:
  "commit_effect
     \<lparr>has_AudioContext = False, has_webkitAudioContext = False, throws = (\<lambda>c w. False),
       close_rejects = (\<lambda>w. False)\<rparr>
     \<lparr>highContrast = False, soundEnabled = True\<rparr>
     \<lparr>state = \<lparr>hovered = True, clicked = False\<rparr>, effect_deps = Some (True, False),
      effect_cleanup = None\<rparr>
     \<lparr>contexts = [], oscillators = [], gains = [], console = [], unhandled_rejections = []\<rparr>
   = (Inr \<lparr>state = \<lparr>hovered = True, clicked = False\<rparr>, effect_deps = Some (True, True),
           effect_cleanup = None\<rparr>,
      \<lparr>contexts = [], oscillators = [], gains = [], console = [], unhandled_rejections = []\<rparr>)"
  by (simp add: commit_effect_def audio_effect_def)

text \<open>
  C5, amended: in a browser that has the audio API and in which none of its calls fails
  (no call throws, and the promise of \<open>close()\<close> is not rejected): when the commit finds
  \<open>soundEnabled\<close> or \<open>hovered\<close> changed since the effect last ran, the oscillator of the
  pending cleanup is stopped and its context closed. If \<open>soundEnabled\<close> holds, a new
  context, oscillator and gain node are made, the oscillator a started sine with
  frequency 40 and gain 0.2 when hovered and frequency 10 and gain 0 when not. If
  \<open>soundEnabled\<close> does not hold, nothing is made and no cleanup is left.
\<close>

theorem audio_follows_deps:
  assumes "audio_works b"
    and "tone_live c w"
    and "effect_deps c \<noteq> Some (soundEnabled p, hovered (state c))"
  shows "\<exists>c' w'. commit_effect b p c w = (Inr c', w')
     \<and> (\<forall>l r k. effect_cleanup c = Some l \<and> oscillator l = Some r \<and> audioContext l = Some k
           \<longrightarrow> o_stopped (oscillators w' ! r) \<and> contexts w' ! k)
     \<and> (soundEnabled p \<longrightarrow>
           effect_cleanup c' = Some \<lparr>audioContext = Some (length (contexts w)),
                                     oscillator = Some (length (oscillators w)),
                                     gainNode = Some (length (gains w))\<rparr>
           \<and> \<not> contexts w' ! length (contexts w)
           \<and> length (contexts w') = Suc (length (contexts w))
           \<and> oscillators w' ! length (oscillators w) =
               \<lparr>o_context = length (contexts w), o_type = ''sine'',
                o_frequency = (if hovered (state c) then 40 else 10),
                o_output = Some (length (gains w)), o_started = True, o_stopped = False\<rparr>
           \<and> length (oscillators w') = Suc (length (oscillators w))
           \<and> gains w' ! length (gains w) =
               \<lparr>gn_context = length (contexts w),
                gn_gain = (if hovered (state c) then rd (2 / 10) else 0),
                gn_to_destination = True\<rparr>
           \<and> length (gains w') = Suc (length (gains w)))
     \<and> (\<not> soundEnabled p \<longrightarrow>
           effect_cleanup c' = None
           \<and> length (contexts w') = length (contexts w)
           \<and> length (oscillators w') = length (oscillators w)
           \<and> gains w' = gains w)
     \<and> tone_live c' w' \<and> state c' = state c"
  using assms by (rule commit_effect_changed)

theorem audio_follows_deps_witness:
  "audio_works \<lparr>has_AudioContext = True, has_webkitAudioContext = False, throws = (\<lambda>c w. False),
       close_rejects = (\<lambda>w. False)\<rparr>
   \<and> tone_live
      \<lparr>state = \<lparr>hovered = True, clicked = False\<rparr>, effect_deps = Some (True, False),
       effect_cleanup = Some \<lparr>audioContext = Some 0, oscillator = Some 0, gainNode = Some 0\<rparr>\<rparr>
      \<lparr>contexts = [False],
       oscillators = [\<lparr>o_context = 0, o_type = ''sine'', o_frequency = 10, o_output = Some 0,
                       o_started = True, o_stopped = False\<rparr>],
       gains = [\<lparr>gn_context = 0, gn_gain = 0, gn_to_destination = True\<rparr>],
       console = [], unhandled_rejections = []\<rparr>
   \<and> Some (True, False) \<noteq> Some (True, True)
   \<and> commit_effect
      \<lparr>has_AudioContext = True, has_webkitAudioContext = False, throws = (\<lambda>c w. False),
       close_rejects = (\<lambda>w. False)\<rparr>
      \<lparr>highContrast = False, soundEnabled = True\<rparr>
      \<lparr>state = \<lparr>hovered = True, clicked = False\<rparr>, effect_deps = Some (True, False),
       effect_cleanup = Some \<lparr>audioContext = Some 0, oscillator = Some 0, gainNode = Some 0\<rparr>\<rparr>
      \<lparr>contexts = [False],
       oscillators = [\<lparr>o_context = 0, o_type = ''sine'', o_frequency = 10, o_output = Some 0,
                       o_started = True, o_stopped = False\<rparr>],
       gains = [\<lparr>gn_context = 0, gn_gain = 0, gn_to_destination = True\<rparr>],
       console = [], unhandled_rejections = []\<rparr>
     = (Inr \<lparr>state = \<lparr>hovered = True, clicked = False\<rparr>, effect_deps = Some (True, True),
             effect_cleanup = Some \<lparr>audioContext = Some 1, oscillator = Some 1, gainNode = Some 1\<rparr>\<rparr>,
        \<lparr>contexts = [True, False],
         oscillators = [\<lparr>o_context = 0, o_type = ''sine'', o_frequency = 10, o_output = Some 0,
                         o_started = True, o_stopped = True\<rparr>,
                        \<lparr>o_context = 1, o_type = ''sine'', o_frequency = 40, o_output = Some 1,
                         o_started = True, o_stopped = False\<rparr>],
         gains = [\<lparr>gn_context = 0, gn_gain = 0, gn_to_destination = True\<rparr>,
                  \<lparr>gn_context = 1, gn_gain = rd (2 / 10), gn_to_destination = True\<rparr>],
         console = [], unhandled_rejections = []\<rparr>)"
proof -
  let ?b = "\<lparr>has_AudioContext = True, has_webkitAudioContext = False, throws = (\<lambda>c w. False),
       close_rejects = (\<lambda>w. False)\<rparr>"
  let ?p = "\<lparr>highContrast = False, soundEnabled = True\<rparr>"
  let ?c = "\<lparr>state = \<lparr>hovered = True, clicked = False\<rparr>, effect_deps = Some (True, False),
       effect_cleanup = Some \<lparr>audioContext = Some 0, oscillator = Some 0, gainNode = Some 0\<rparr>\<rparr>"
  let ?w = "\<lparr>contexts = [False],
       oscillators = [\<lparr>o_context = 0, o_type = ''sine'', o_frequency = 10, o_output = Some 0,
                       o_started = True, o_stopped = False\<rparr>],
       gains = [\<lparr>gn_context = 0, gn_gain = 0, gn_to_destination = True\<rparr>],
       console = [], unhandled_rejections = []\<rparr>"
  have works: "audio_works ?b" by (simp add: audio_works_def)
  have live: "tone_live ?c ?w" by (simp add: tone_live_def)
  have changed: "effect_deps ?c \<noteq> Some (soundEnabled ?p, hovered (state ?c))" by simp
  from audio_follows_deps [OF works live changed]
  obtain c' w' where run: "commit_effect ?b ?p ?c ?w = (Inr c', w')"
    and old: "o_stopped (oscillators w' ! 0) \<and> contexts w' ! 0"
    and new: "o_frequency (oscillators w' ! 1) = 40" "gn_gain (gains w' ! 1) = rd (2 / 10)"
    by auto
  have eval: "commit_effect ?b ?p ?c ?w
     = (Inr \<lparr>state = \<lparr>hovered = True, clicked = False\<rparr>, effect_deps = Some (True, True),
             effect_cleanup = Some \<lparr>audioContext = Some 1, oscillator = Some 1, gainNode = Some 1\<rparr>\<rparr>,
        \<lparr>contexts = [True, False],
         oscillators = [\<lparr>o_context = 0, o_type = ''sine'', o_frequency = 10, o_output = Some 0,
                         o_started = True, o_stopped = True\<rparr>,
                        \<lparr>o_context = 1, o_type = ''sine'', o_frequency = 40, o_output = Some 1,
                         o_started = True, o_stopped = False\<rparr>],
         gains = [\<lparr>gn_context = 0, gn_gain = 0, gn_to_destination = True\<rparr>,
                  \<lparr>gn_context = 1, gn_gain = rd (2 / 10), gn_to_destination = True\<rparr>],
         console = [], unhandled_rejections = []\<rparr>)"
    by (simp add: commit_effect_def run_cleanup_def audio_effect_def try_catch_steps_def
        api_def new_AudioContext_def createOscillator_def createGain_def set_type_def
        set_frequency_def set_gain_def connect_oscillator_def connect_gain_def start_def
        stop_def close_def deref_def update_oscillator_def update_gain_def)
  from works live run old new eval show ?thesis by simp
qed

subsection \<open>Failures of the audio API\<close>

lemma try_catch_steps_returns: "fst (try_catch_steps body handler f) = Inr ()"
  by (simp add: try_catch_steps_def split: prod.splits option.splits)

lemma run_cleanup_returns: "fst (run_cleanup b l w) = Inr ()"
  by (simp add: run_cleanup_def case_prod_beta try_catch_steps_returns)

lemma audio_effect_returns: "\<exists>r. fst (audio_effect b s h w) = Inr r"
proof -
  have "\<And>body handler f l w' e. try_catch_steps body handler f \<noteq> (Inl e, (l, w'))"
    using try_catch_steps_returns by (metis fst_conv sum.distinct(1))
  then show ?thesis
    by (auto simp add: audio_effect_def split: prod.splits sum.splits)
qed

text \<open>
  An example of a failure: the browser has only \<open>webkitAudioContext\<close> and refuses
  \<open>createOscillator\<close>. The context is made, the exception is caught and logged, and the
  cleanup that is left will close the context.
\<close>

lemma refused_oscillator_is_logged:
  "commit_effect
     \<lparr>has_AudioContext = False, has_webkitAudioContext = True,
      throws = (\<lambda>c w. c = CreateOscillator), close_rejects = (\<lambda>w. False)\<rparr>
     \<lparr>highContrast = False, soundEnabled = True\<rparr>
     \<lparr>state = initial_state, effect_deps = None, effect_cleanup = None\<rparr>
     \<lparr>contexts = [], oscillators = [], gains = [], console = [], unhandled_rejections = []\<rparr>
   = (Inr \<lparr>state = initial_state, effect_deps = Some (True, False),
           effect_cleanup = Some \<lparr>audioContext = Some 0, oscillator = None, gainNode = None\<rparr>\<rparr>,
      \<lparr>contexts = [False], oscillators = [], gains = [], console = [''Audio error:''], unhandled_rejections = []\<rparr>)"
  by (simp add: commit_effect_def audio_effect_def try_catch_steps_def initial_state_def
        api_def new_AudioContext_def createOscillator_def deref_def console_error_def)

text \<open>
  Two more: when \<open>start()\<close> throws, the cleanup that is left calls \<open>stop()\<close> on an
  oscillator that never started; that throws, the \<open>catch\<close> block logs it, and \<open>close()\<close> is
  skipped, so the context stays open. When \<open>stop()\<close> throws in the cleanup of a playing
  tone, the tone is not stopped and its context is not closed.
\<close>

lemma refused_start_leaves_context_open:
  "commit_effect
     \<lparr>has_AudioContext = True, has_webkitAudioContext = False,
      throws = (\<lambda>c w. c = Start), close_rejects = (\<lambda>w. False)\<rparr>
     \<lparr>highContrast = False, soundEnabled = True\<rparr>
     \<lparr>state = initial_state, effect_deps = None, effect_cleanup = None\<rparr>
     \<lparr>contexts = [], oscillators = [], gains = [], console = [], unhandled_rejections = []\<rparr>
   = (Inr \<lparr>state = initial_state, effect_deps = Some (True, False),
           effect_cleanup = Some \<lparr>audioContext = Some 0, oscillator = Some 0, gainNode = Some 0\<rparr>\<rparr>,
      \<lparr>contexts = [False],
       oscillators = [\<lparr>o_context = 0, o_type = ''sine'', o_frequency = 10, o_output = Some 0,
                       o_started = False, o_stopped = False\<rparr>],
       gains = [\<lparr>gn_context = 0, gn_gain = 0, gn_to_destination = True\<rparr>],
       console = [''Audio error:''], unhandled_rejections = []\<rparr>)
   \<and> run_cleanup
       \<lparr>has_AudioContext = True, has_webkitAudioContext = False,
        throws = (\<lambda>c w. c = Start), close_rejects = (\<lambda>w. False)\<rparr>
       \<lparr>audioContext = Some 0, oscillator = Some 0, gainNode = Some 0\<rparr>
       \<lparr>contexts = [False],
        oscillators = [\<lparr>o_context = 0, o_type = ''sine'', o_frequency = 10, o_output = Some 0,
                        o_started = False, o_stopped = False\<rparr>],
        gains = [\<lparr>gn_context = 0, gn_gain = 0, gn_to_destination = True\<rparr>],
        console = [''Audio error:''], unhandled_rejections = []\<rparr>
     = (Inr (),
        \<lparr>contexts = [False],
         oscillators = [\<lparr>o_context = 0, o_type = ''sine'', o_frequency = 10, o_output = Some 0,
                         o_started = False, o_stopped = False\<rparr>],
         gains = [\<lparr>gn_context = 0, gn_gain = 0, gn_to_destination = True\<rparr>],
         console = [''Audio error:'', ''Audio cleanup error:''], unhandled_rejections = []\<rparr>)"
  by (simp add: commit_effect_def run_cleanup_def audio_effect_def try_catch_steps_def
        initial_state_def api_def new_AudioContext_def createOscillator_def createGain_def
        set_type_def set_frequency_def set_gain_def connect_oscillator_def connect_gain_def
        start_def stop_def close_def deref_def update_oscillator_def update_gain_def
        console_error_def)

lemma refused_stop_leaves_tone_playing:
  "run_cleanup
     \<lparr>has_AudioContext = True, has_webkitAudioContext = False,
      throws = (\<lambda>c w. c = Stop), close_rejects = (\<lambda>w. False)\<rparr>
     \<lparr>audioContext = Some 0, oscillator = Some 0, gainNode = Some 0\<rparr>
     \<lparr>contexts = [False],
       oscillators = [\<lparr>o_context = 0, o_type = ''sine'', o_frequency = 10, o_output = Some 0,
                       o_started = True, o_stopped = False\<rparr>],
       gains = [\<lparr>gn_context = 0, gn_gain = 0, gn_to_destination = True\<rparr>],
       console = [], unhandled_rejections = []\<rparr>
   = (Inr (),
      \<lparr>contexts = [False],
       oscillators = [\<lparr>o_context = 0, o_type = ''sine'', o_frequency = 10, o_output = Some 0,
                       o_started = True, o_stopped = False\<rparr>],
       gains = [\<lparr>gn_context = 0, gn_gain = 0, gn_to_destination = True\<rparr>],
       console = [''Audio cleanup error:''], unhandled_rejections = []\<rparr>)"
  by (simp add: run_cleanup_def try_catch_steps_def api_def stop_def close_def deref_def
        update_oscillator_def console_error_def)

text \<open>
  What holds of every browser: whatever it supports, whichever audio calls throw and
  whether or not \<open>close()\<close> is rejected, no exception leaves the effect or its cleanup,
  and so none leaves a commit, an event, the first render or the unmount. The state
  after an event is the one the handlers produce, the same for every browser, and the
  tree that Scene renders depends on the props and that state only.
\<close>

lemma thrown_failures_contained:
  "(\<exists>r. fst (audio_effect b sound_on is_hovered w) = Inr r)
   \<and> fst (run_cleanup b l w) = Inr ()
   \<and> (\<exists>c'. fst (commit_effect b p c w) = Inr c' \<and> state c' = state c)
   \<and> (\<exists>c'. fst (handle_event b p ev c w) = Inr c' \<and> state c' = dispatch p ev (state c))
   \<and> (\<exists>c'. fst (mount_scene b p w) = Inr c' \<and> state c' = initial_state)
   \<and> fst (unmount b c w) = Inr ()"
proof -
  have commit: "\<exists>c'. fst (commit_effect b p c w) = Inr c' \<and> state c' = state c" for c
  proof (cases "effect_deps c = Some (soundEnabled p, hovered (state c))")
    case True
    then show ?thesis by (simp add: commit_effect_def)
  next
    case False
    obtain w1 where w1:
      "(case effect_cleanup c of None \<Rightarrow> (Inr (), w) | Some l \<Rightarrow> run_cleanup b l w) = (Inr (), w1)"
      using run_cleanup_returns by (cases "effect_cleanup c") (auto simp add: prod_eq_iff)
    obtain cl w2 where w2: "audio_effect b (soundEnabled p) (hovered (state c)) w1 = (Inr cl, w2)"
      using audio_effect_returns [of b "soundEnabled p" "hovered (state c)" w1]
      by (auto simp add: prod_eq_iff)
    from False w1 w2 show ?thesis by (simp add: commit_effect_def)
  qed
  have un: "fst (unmount b c w) = Inr ()"
    using run_cleanup_returns by (simp add: unmount_def split: option.splits)
  from commit [of c] commit [of "c\<lparr>state := dispatch p ev (state c)\<rparr>"]
    commit [of "\<lparr>state = initial_state, effect_deps = None, effect_cleanup = None\<rparr>"]
    audio_effect_returns run_cleanup_returns un
  show ?thesis by (simp add: handle_event_def mount_scene_def)
qed

text \<open>
  C6 says that every failure of the teardown is caught inside the effect. The code does
  otherwise for the one failure that \<open>close()\<close> reports: the cleanup drops the promise
  that \<open>close()\<close> returns, so when the promise is rejected the \<open>catch\<close> block does not run
  and nothing is logged; the rejection leaves the effect as an unhandled rejection, and
  the context stays open. Here the sound is switched off while a tone plays, in a
  browser that rejects \<open>close()\<close>; the same happens at the unmount.
\<close>

theorem rejected_close_escapes:
  "commit_effect
     \<lparr>has_AudioContext = True, has_webkitAudioContext = False, throws = (\<lambda>c w. False),
       close_rejects = (\<lambda>w. True)\<rparr>
     \<lparr>highContrast = False, soundEnabled = False\<rparr>
     \<lparr>state = \<lparr>hovered = False, clicked = False\<rparr>, effect_deps = Some (True, False),
       effect_cleanup = Some \<lparr>audioContext = Some 0, oscillator = Some 0, gainNode = Some 0\<rparr>\<rparr>
     \<lparr>contexts = [False],
       oscillators = [\<lparr>o_context = 0, o_type = ''sine'', o_frequency = 10, o_output = Some 0,
                       o_started = True, o_stopped = False\<rparr>],
       gains = [\<lparr>gn_context = 0, gn_gain = 0, gn_to_destination = True\<rparr>],
       console = [], unhandled_rejections = []\<rparr>
   = (Inr \<lparr>state = \<lparr>hovered = False, clicked = False\<rparr>, effect_deps = Some (False, False),
           effect_cleanup = None\<rparr>,
      \<lparr>contexts = [False],
       oscillators = [\<lparr>o_context = 0, o_type = ''sine'', o_frequency = 10, o_output = Some 0,
                       o_started = True, o_stopped = True\<rparr>],
       gains = [\<lparr>gn_context = 0, gn_gain = 0, gn_to_destination = True\<rparr>],
       console = [], unhandled_rejections = [Error ''InvalidStateError'']\<rparr>)
   \<and> unmount
       \<lparr>has_AudioContext = True, has_webkitAudioContext = False, throws = (\<lambda>c w. False),
       close_rejects = (\<lambda>w. True)\<rparr>
       \<lparr>state = \<lparr>hovered = False, clicked = False\<rparr>, effect_deps = Some (True, False),
       effect_cleanup = Some \<lparr>audioContext = Some 0, oscillator = Some 0, gainNode = Some 0\<rparr>\<rparr>
       \<lparr>contexts = [False],
       oscillators = [\<lparr>o_context = 0, o_type = ''sine'', o_frequency = 10, o_output = Some 0,
                       o_started = True, o_stopped = False\<rparr>],
       gains = [\<lparr>gn_context = 0, gn_gain = 0, gn_to_destination = True\<rparr>],
       console = [], unhandled_rejections = []\<rparr>
     = (Inr (),
        \<lparr>contexts = [False],
       oscillators = [\<lparr>o_context = 0, o_type = ''sine'', o_frequency = 10, o_output = Some 0,
                       o_started = True, o_stopped = True\<rparr>],
       gains = [\<lparr>gn_context = 0, gn_gain = 0, gn_to_destination = True\<rparr>],
       console = [], unhandled_rejections = [Error ''InvalidStateError'']\<rparr>)"
  by (simp add: commit_effect_def unmount_def run_cleanup_def audio_effect_def
        try_catch_steps_def api_def stop_def close_def deref_def update_oscillator_def)

section \<open>Properties of TextLabel\<close>

text \<open>
  The \<open>try\<close> block of TextLabel holds the creation of the \<open>Text\<close> element only, and that
  cannot throw. So TextLabel returns the \<open>Text\<close> element for every input, never the
  sphere; drei's \<open>Text\<close> runs afterwards, when React renders that element, outside the
  \<open>try\<close> block.
\<close>

lemma TextLabel_returns_Text:
  "\<exists>tp. TextLabel lp = Inr (Text_el tp (l_text lp)) \<and> t_position tp = l_position lp"
  by (simp add: TextLabel_def jsx_Text_def try_catch_def Let_def)

lemma Text_failure_leaves_TextLabel:
  "mount (\<lambda>tp s. Inl e) (Suc n) (TextLabel_el lp) = Some (Inl e)"
  by (simp add: TextLabel_def jsx_Text_def try_catch_def Let_def)

text \<open>
  C7 says that a failure to render the caption makes TextLabel return a small sphere at
  the same position, and that the scene does not crash. The code does otherwise: with a
  \<open>Text\<close> that throws, TextLabel still returns the \<open>Text\<close> element, rendering the label ends
  in the exception, and so does rendering the hovered scene.
\<close>

theorem text_failure_escapes:
  "TextLabel \<lparr>l_text = ''Boundary Set'', l_position = [0, 3 / 2, 0],
        l_color = Some ''#FFFFFF'', l_outlineColor = Some ''#000000'', l_fontSize = None\<rparr>
     = Inr (Text_el \<lparr>t_position = [0, 3 / 2, 0], t_fontSize = rd (2 / 10), t_color = ''#FFFFFF'',
                     anchorX = ''center'', anchorY = ''middle'', outlineWidth = rd (1 / 100),
                     t_outlineColor = ''#000000'', renderOrder = 1, depthTest = False\<rparr>
              ''Boundary Set'')
   \<and> mount (\<lambda>tp s. Inl (Error ''text rendering failed'')) 1
        (TextLabel_el \<lparr>l_text = ''Boundary Set'', l_position = [0, 3 / 2, 0],
        l_color = Some ''#FFFFFF'', l_outlineColor = Some ''#000000'', l_fontSize = None\<rparr>)
     = Some (Inl (Error ''text rendering failed''))
   \<and> mount (\<lambda>tp s. Inl (Error ''text rendering failed'')) 2
        (Scene \<lparr>highContrast = False, soundEnabled = False\<rparr> \<lparr>hovered = True, clicked = False\<rparr>)
     = Some (Inl (Error ''text rendering failed''))"
  by (simp add: TextLabel_def jsx_Text_def try_catch_def Scene_def SimpleHypercube_def
        GROWTH_STAGES_def enumerate_eq_zip layer_def numeral_2_eq_2)

end
